theory Spec2Isabelle
  imports Main "HOL-Library.Word"
begin

section \<open>Handles, locations and sentinels (context\_desktop.go, lines 31--55)\<close>

text \<open>
  The five handle kinds are Go \<open>uint32\<close> values, the two location kinds are Go \<open>int32\<close>
  values. Both are 32-bit words here; \<open>sint\<close> reads a location as the signed number the
  source compares with \<open>-1\<close>, so the not-found sentinel is the word \<open>- 1\<close>.
\<close>

type_synonym Texture = "32 word"
type_synonym Framebuffer = "32 word"
type_synonym shader = "32 word"
type_synonym program = "32 word"
type_synonym uniformLocation = "32 word"
type_synonym attribLocation = "32 word"
type_synonym programID = "32 word"

text \<open>A Go \<open>error\<close> is its message; \<open>nil\<close> is \<open>None\<close>. A panic is its message too.\<close>

type_synonym error = string
type_synonym panic = string

definition invalidTexture :: Texture where
  "invalidTexture = 0"

text \<open>The untyped constant \<open>(1 << 32) - 1\<close>, stored in a \<open>uint32\<close>.\<close>

definition invalidFramebuffer :: Framebuffer where
  "invalidFramebuffer = word_of_int (push_bit 32 1 - 1)"

definition getProgramID :: "program \<Rightarrow> programID" where
  "getProgramID p = p"

section \<open>The device\<close>

text \<open>
  The enumerants of the OpenGL 2.1 binding that the source names (the binding is an
  external library; the values are those of the OpenGL registry).
\<close>

definition gl_BLEND :: "32 word" where "gl_BLEND = 0x0BE2"
definition gl_FRAMEBUFFER_BINDING :: "32 word" where "gl_FRAMEBUFFER_BINDING = 0x8CA6"
definition gl_UNPACK_ALIGNMENT :: "32 word" where "gl_UNPACK_ALIGNMENT = 0x0CF5"
definition gl_TEXTURE_2D :: "32 word" where "gl_TEXTURE_2D = 0x0DE1"
definition gl_TEXTURE_MAG_FILTER :: "32 word" where "gl_TEXTURE_MAG_FILTER = 0x2800"
definition gl_TEXTURE_MIN_FILTER :: "32 word" where "gl_TEXTURE_MIN_FILTER = 0x2801"
definition gl_TEXTURE_WRAP_S :: "32 word" where "gl_TEXTURE_WRAP_S = 0x2802"
definition gl_TEXTURE_WRAP_T :: "32 word" where "gl_TEXTURE_WRAP_T = 0x2803"
definition gl_NEAREST :: "32 word" where "gl_NEAREST = 0x2600"
definition gl_CLAMP_TO_EDGE :: "32 word" where "gl_CLAMP_TO_EDGE = 0x812F"
definition gl_RGBA :: "32 word" where "gl_RGBA = 0x1908"
definition gl_UNSIGNED_BYTE :: "32 word" where "gl_UNSIGNED_BYTE = 0x1401"
definition gl_FRAMEBUFFER :: "32 word" where "gl_FRAMEBUFFER = 0x8D40"
definition gl_COLOR_ATTACHMENT0 :: "32 word" where "gl_COLOR_ATTACHMENT0 = 0x8CE0"
definition gl_FRAMEBUFFER_COMPLETE :: "32 word" where "gl_FRAMEBUFFER_COMPLETE = 0x8CD5"
definition gl_NO_ERROR :: "32 word" where "gl_NO_ERROR = 0"
definition gl_LINK_STATUS :: "32 word" where "gl_LINK_STATUS = 0x8B82"
definition gl_FALSE :: "32 word" where "gl_FALSE = 0"

text \<open>
  Every call of the source into the device, with the arguments the source passes.
  A \<open>float32\<close> is carried as its 32 bits: the source only measures the slice's length.
\<close>

datatype glcall =
    Init
  | Enable "32 word"
  | BlendFunc_call "32 word" "32 word"
  | GetIntegerv "32 word"
  | GenTextures
  | PixelStorei "32 word" "32 word"
  | BindTexture_call "32 word" "32 word"
  | TexParameteri "32 word" "32 word" "32 word"
  | TexImage2D "32 word" "32 word" "32 word" "32 word" "32 word" "32 word" "32 word" "32 word"
  | IsTexture_call "32 word"
  | DeleteTextures "32 word"
  | GenFramebuffersEXT
  | BindFramebufferEXT "32 word" "32 word"
  | FramebufferTexture2DEXT "32 word" "32 word" "32 word" "32 word" "32 word"
  | CheckFramebufferStatusEXT "32 word"
  | GetError
  | IsFramebufferEXT "32 word"
  | DeleteFramebuffersEXT "32 word"
  | CreateProgram
  | AttachShader "32 word" "32 word"
  | LinkProgram "32 word"
  | GetProgramiv "32 word" "32 word"
  | IsProgram "32 word"
  | DeleteProgram "32 word"
  | GetUniformLocation_call "32 word" string
  | GetAttribLocation_call "32 word" string
  | Uniform2fv "32 word" "32 word list"
  | Uniform4fv "32 word" "32 word list"
  | UniformMatrix4fv "32 word" "32 word list"

text \<open>
  The device is outside the repository. Its state is what the source can observe of it:
  the calls it has received, in order, the names it reports as live textures,
  framebuffers and programs, and the answers it gives to the source's queries.
\<close>

record device =
  calls :: "glcall list"
  init_result :: "error option"
  gen_texture :: "32 word"
  gen_framebuffer :: "32 word"
  framebuffer_status :: "32 word"
  last_error :: "32 word"
  framebuffer_binding :: "32 word"
  created_program :: "32 word"
  link_status :: "32 word"
  program_info_log :: string
  textures :: "32 word set"
  framebuffers :: "32 word set"
  programs :: "32 word set"
  uniform_location :: "32 word \<Rightarrow> string \<Rightarrow> 32 word"
  attrib_location :: "32 word \<Rightarrow> string \<Rightarrow> 32 word"

definition issue :: "glcall \<Rightarrow> device \<Rightarrow> device" where
  "issue k d = d\<lparr>calls := calls d @ [k]\<rparr>"

definition glInit :: "device \<Rightarrow> error option \<times> device" where
  "glInit d = (init_result d, issue Init d)"

definition glGenTextures :: "device \<Rightarrow> 32 word \<times> device" where
  "glGenTextures d = (gen_texture d, issue GenTextures d)"

definition glIsTexture :: "32 word \<Rightarrow> device \<Rightarrow> bool \<times> device" where
  "glIsTexture t d = (t \<in> textures d, issue (IsTexture_call t) d)"

definition glDeleteTextures :: "32 word \<Rightarrow> device \<Rightarrow> device" where
  "glDeleteTextures t d = issue (DeleteTextures t) (d\<lparr>textures := textures d - {t}\<rparr>)"

definition glGenFramebuffersEXT :: "device \<Rightarrow> 32 word \<times> device" where
  "glGenFramebuffersEXT d = (gen_framebuffer d, issue GenFramebuffersEXT d)"

definition glCheckFramebufferStatusEXT :: "32 word \<Rightarrow> device \<Rightarrow> 32 word \<times> device" where
  "glCheckFramebufferStatusEXT target d =
     (framebuffer_status d, issue (CheckFramebufferStatusEXT target) d)"

text \<open>\<open>glGetError\<close> returns the recorded error flag and clears it.\<close>

definition glGetError :: "device \<Rightarrow> 32 word \<times> device" where
  "glGetError d = (last_error d, issue GetError (d\<lparr>last_error := gl_NO_ERROR\<rparr>))"

definition glIsFramebufferEXT :: "32 word \<Rightarrow> device \<Rightarrow> bool \<times> device" where
  "glIsFramebufferEXT f d = (f \<in> framebuffers d, issue (IsFramebufferEXT f) d)"

definition glDeleteFramebuffersEXT :: "32 word \<Rightarrow> device \<Rightarrow> device" where
  "glDeleteFramebuffersEXT f d =
     issue (DeleteFramebuffersEXT f) (d\<lparr>framebuffers := framebuffers d - {f}\<rparr>)"

definition glGetIntegerv_FRAMEBUFFER_BINDING :: "device \<Rightarrow> 32 word \<times> device" where
  "glGetIntegerv_FRAMEBUFFER_BINDING d =
     (framebuffer_binding d, issue (GetIntegerv gl_FRAMEBUFFER_BINDING) d)"

definition glCreateProgram :: "device \<Rightarrow> 32 word \<times> device" where
  "glCreateProgram d = (created_program d, issue CreateProgram d)"

definition glGetProgramiv_LINK_STATUS :: "32 word \<Rightarrow> device \<Rightarrow> 32 word \<times> device" where
  "glGetProgramiv_LINK_STATUS p d = (link_status d, issue (GetProgramiv p gl_LINK_STATUS) d)"

definition glIsProgram :: "32 word \<Rightarrow> device \<Rightarrow> bool \<times> device" where
  "glIsProgram p d = (p \<in> programs d, issue (IsProgram p) d)"

definition glDeleteProgram :: "32 word \<Rightarrow> device \<Rightarrow> device" where
  "glDeleteProgram p d = issue (DeleteProgram p) (d\<lparr>programs := programs d - {p}\<rparr>)"

definition glGetUniformLocation :: "32 word \<Rightarrow> string \<Rightarrow> device \<Rightarrow> 32 word \<times> device" where
  "glGetUniformLocation p name d =
     (uniform_location d p name, issue (GetUniformLocation_call p name) d)"

definition glGetAttribLocation :: "32 word \<Rightarrow> string \<Rightarrow> device \<Rightarrow> 32 word \<times> device" where
  "glGetAttribLocation p name d =
     (attrib_location d p name, issue (GetAttribLocation_call p name) d)"

section \<open>The context\<close>

text \<open>
  Modelled from the spec: \<open>graphics.CompositeMode\<close> is declared outside
  context\_desktop.go. The spec (section 3) describes it as a semantic enumeration holding
  source-over and other composite operations; the source names the members
  \<open>CompositeModeSourceOver\<close> and \<open>CompositeModeUnknown\<close>. The other members are
  numbered.
\<close>

datatype CompositeMode =
    CompositeModeSourceOver
  | CompositeModeOther nat
  | CompositeModeUnknown

text \<open>
  Modelled from the spec: the Location Cache type is declared outside
  context\_desktop.go. Spec section 3: an entry is keyed by (program handle, parameter
  name) and holds the resolved integer location; uniforms and attributes are resolved
  by separate operations, so each has its table.
\<close>

record locationCache =
  uniformLocationCache :: "programID \<times> string \<rightharpoonup> uniformLocation"
  attribLocationCache :: "programID \<times> string \<rightharpoonup> attribLocation"

text \<open>Modelled from the spec: \<open>newLocationCache\<close> (section 4.2, step 2) is a cache without entries.\<close>

definition newLocationCache :: locationCache where
  "newLocationCache = \<lparr>uniformLocationCache = Map.empty, attribLocationCache = Map.empty\<rparr>"

text \<open>
  The fields of \<open>Context\<close> that context\_desktop.go reads and writes: \<open>init\<close> of the
  embedded \<open>context\<close> struct (lines 76--79) and the cached state. The viewport
  dimensions are Go \<open>int\<close>; the source only ever stores 0 in them.
\<close>

record Context =
  init :: bool
  locationCache :: locationCache
  lastTexture :: Texture
  lastFramebuffer :: Framebuffer
  lastViewportWidth :: int
  lastViewportHeight :: int
  lastCompositeMode :: CompositeMode
  screenFramebuffer :: Framebuffer

type_synonym state = "Context \<times> device"

text \<open>
  Modelled from the spec: the dispatch function \<open>runOnMainThread\<close> is supplied by the
  windowing layer at \<open>Init\<close>. Spec section 4.1: it executes the unit of work
  synchronously and returns whatever the unit of work produces, so
  \<open>runOnContextThread\<close> (lines 87--89) applies the unit of work to the current state.
\<close>

definition runOnContextThread :: "(state \<Rightarrow> 'r) \<Rightarrow> state \<Rightarrow> 'r" where
  "runOnContextThread f s = f s"

subsection \<open>BlendFunc (lines 125--136)\<close>

text \<open>
  \<open>mode.Operations()\<close> and \<open>convertOperation\<close> are declared outside
  context\_desktop.go; they are parameters. \<open>convertOperation\<close> yields a Go integer,
  which \<open>uint32(...)\<close> truncates.
\<close>

fun BlendFunc ::
  "(CompositeMode \<Rightarrow> 'op \<times> 'op) \<Rightarrow> ('op \<Rightarrow> int) \<Rightarrow> state \<Rightarrow> CompositeMode \<Rightarrow> state" where
  "BlendFunc Operations convertOperation s mode =
     runOnContextThread (\<lambda>(c, d).
       if lastCompositeMode c = mode then (c, d)
       else
         let c1 = c\<lparr>lastCompositeMode := mode\<rparr>;
             (s0, d0) = Operations mode;
             s2 = convertOperation s0;
             d2 = convertOperation d0
         in (c1, issue (BlendFunc_call (word_of_int s2) (word_of_int d2)) d)) s"

subsection \<open>Deleting textures, framebuffers and programs\<close>

text \<open>\<open>DeleteTexture\<close>, lines 200--212.\<close>

fun DeleteTexture :: "state \<Rightarrow> Texture \<Rightarrow> state" where
  "DeleteTexture s t =
     runOnContextThread (\<lambda>(c, d).
       let tt = t;
           (live, d1) = glIsTexture tt d
       in if \<not> live then (c, d1)
          else
            let c1 = (if lastTexture c = t then c\<lparr>lastTexture := invalidTexture\<rparr> else c)
            in (c1, glDeleteTextures tt d1)) s"

text \<open>\<open>DeleteFramebuffer\<close>, lines 275--289.\<close>

fun DeleteFramebuffer :: "state \<Rightarrow> Framebuffer \<Rightarrow> state" where
  "DeleteFramebuffer s f =
     runOnContextThread (\<lambda>(c, d).
       let ff = f;
           (live, d1) = glIsFramebufferEXT ff d
       in if \<not> live then (c, d1)
          else
            let c1 = (if lastFramebuffer c = f
                      then c\<lparr>lastFramebuffer := invalidFramebuffer,
                             lastViewportWidth := 0,
                             lastViewportHeight := 0\<rparr>
                      else c)
            in (c1, glDeleteFramebuffersEXT ff d1)) s"

text \<open>\<open>deleteProgram\<close>, lines 361--369.\<close>

fun deleteProgram :: "state \<Rightarrow> program \<Rightarrow> state" where
  "deleteProgram s p =
     runOnContextThread (\<lambda>(c, d).
       let (live, d1) = glIsProgram p d
       in if \<not> live then (c, d1)
          else (c, glDeleteProgram p d1)) s"

subsection \<open>Binding\<close>

text \<open>\<open>bindTextureImpl\<close>, lines 193--198, and \<open>bindFramebufferImpl\<close>, lines 165--170.\<close>

fun bindTextureImpl :: "state \<Rightarrow> Texture \<Rightarrow> state" where
  "bindTextureImpl s t =
     runOnContextThread (\<lambda>(c, d). (c, issue (BindTexture_call gl_TEXTURE_2D t) d)) s"

fun bindFramebufferImpl :: "state \<Rightarrow> Framebuffer \<Rightarrow> state" where
  "bindFramebufferImpl s f =
     runOnContextThread (\<lambda>(c, d). (c, issue (BindFramebufferEXT gl_FRAMEBUFFER f) d)) s"

text \<open>
  Modelled from the spec: \<open>BindTexture\<close> and \<open>bindFramebuffer\<close> are declared outside
  context\_desktop.go. Spec section 4.2: the device call is skipped entirely when the
  requested handle already matches the cached one; otherwise the device bind is issued
  and the cache records the handle. The viewport is reconciled by the operation that
  carries the dimensions, which \<open>bindFramebuffer(f)\<close> does not.
\<close>

fun BindTexture :: "state \<Rightarrow> Texture \<Rightarrow> state" where
  "BindTexture (c, d) t =
     (if lastTexture c = t then (c, d)
      else let (c1, d1) = bindTextureImpl (c, d) t in (c1\<lparr>lastTexture := t\<rparr>, d1))"

fun bindFramebuffer :: "state \<Rightarrow> Framebuffer \<Rightarrow> state" where
  "bindFramebuffer (c, d) f =
     (if lastFramebuffer c = f then (c, d)
      else let (c1, d1) = bindFramebufferImpl (c, d) f in (c1\<lparr>lastFramebuffer := f\<rparr>, d1))"

subsection \<open>reset (lines 91--123)\<close>

fun reset ::
  "(CompositeMode \<Rightarrow> 'op \<times> 'op) \<Rightarrow> ('op \<Rightarrow> int) \<Rightarrow> state \<Rightarrow> error option \<times> state" where
  "reset Operations convertOperation s =
     (let (err, s1) = runOnContextThread (\<lambda>(c, d).
            if init c then (None, (c, d))
            else
              (case glInit d of
                 (Some e, d1) \<Rightarrow> (Some (''opengl: initializing error '' @ e), (c, d1))
               | (None, d1) \<Rightarrow> (None, (c\<lparr>init := True\<rparr>, d1)))) s
      in if err \<noteq> None then (err, s1)
         else
           let (c1, d1) = s1;
               c2 = c1\<lparr>locationCache := newLocationCache\<rparr>;
               c3 = c2\<lparr>lastTexture := invalidTexture\<rparr>;
               c4 = c3\<lparr>lastFramebuffer := invalidFramebuffer\<rparr>;
               c5 = c4\<lparr>lastViewportWidth := 0\<rparr>;
               c6 = c5\<lparr>lastViewportHeight := 0\<rparr>;
               c7 = c6\<lparr>lastCompositeMode := CompositeModeUnknown\<rparr>;
               s2 = runOnContextThread (\<lambda>(c, d). (c, issue (Enable gl_BLEND) d)) (c7, d1);
               s3 = BlendFunc Operations convertOperation s2 CompositeModeSourceOver;
               s4 = runOnContextThread (\<lambda>(c, d).
                      let (f, d') = glGetIntegerv_FRAMEBUFFER_BINDING d
                      in (c\<lparr>screenFramebuffer := f\<rparr>, d')) s3
           in (None, s4))"

subsection \<open>Creating textures, framebuffers and programs\<close>

text \<open>Decimal rendering of an unsigned number, as \<open>%d\<close> and \<open>%v\<close> print a \<open>uint32\<close>.\<close>

definition digitChar :: "nat \<Rightarrow> char" where
  "digitChar n = ''0123456789'' ! n"

fun showNat :: "nat \<Rightarrow> string" where
  "showNat n = (if n < 10 then [digitChar n] else showNat (n div 10) @ [digitChar (n mod 10)])"

declare showNat.simps [simp del]

text \<open>
  \<open>NewTexture\<close>, lines 138--163. A Go result \<open>(Texture, error)\<close> is a pair; the first
  unit of work also hands its local \<open>texture\<close> on.
\<close>

fun NewTexture :: "state \<Rightarrow> int \<Rightarrow> int \<Rightarrow> (Texture \<times> error option) \<times> state" where
  "NewTexture s width height =
     (let (err, texture, s1) = runOnContextThread (\<lambda>(c, d).
            let (t, d1) = glGenTextures d
            in if t \<le> 0 then (Some ''opengl: creating texture failed'', 0, (c, d1))
               else (None, t, (c, issue (PixelStorei gl_UNPACK_ALIGNMENT 4) d1))) s
      in if err \<noteq> None then ((0, err), s1)
         else
           let s2 = BindTexture s1 texture;
               s3 = runOnContextThread (\<lambda>(c, d).
                      let d1 = issue (TexParameteri gl_TEXTURE_2D gl_TEXTURE_MAG_FILTER gl_NEAREST) d;
                          d2 = issue (TexParameteri gl_TEXTURE_2D gl_TEXTURE_MIN_FILTER gl_NEAREST) d1;
                          d3 = issue (TexParameteri gl_TEXTURE_2D gl_TEXTURE_WRAP_S gl_CLAMP_TO_EDGE) d2;
                          d4 = issue (TexParameteri gl_TEXTURE_2D gl_TEXTURE_WRAP_T gl_CLAMP_TO_EDGE) d3;
                          d5 = issue (TexImage2D gl_TEXTURE_2D 0 gl_RGBA (word_of_int width)
                                        (word_of_int height) 0 gl_RGBA gl_UNSIGNED_BYTE) d4
                      in (c, d5)) s2
           in ((texture, None), s3))"

text \<open>\<open>NewFramebuffer\<close>, lines 234--266.\<close>

fun NewFramebuffer :: "state \<Rightarrow> Texture \<Rightarrow> (Framebuffer \<times> error option) \<times> state" where
  "NewFramebuffer s texture =
     (let (err, f, s1) = runOnContextThread (\<lambda>(c, d).
            let (f, d1) = glGenFramebuffersEXT d
            in if f \<le> 0
               then (Some ''opengl: creating framebuffer failed: gl.IsFramebuffer returns false'',
                     f, (c, d1))
               else (None, f, (c, d1))) s
      in if err \<noteq> None then ((0, err), s1)
         else
           let s2 = bindFramebuffer s1 f;
               (err2, framebuffer, s3) = runOnContextThread (\<lambda>(c, d).
                 let d1 = issue (FramebufferTexture2DEXT gl_FRAMEBUFFER gl_COLOR_ATTACHMENT0
                                   gl_TEXTURE_2D texture 0) d;
                     (st, d2) = glCheckFramebufferStatusEXT gl_FRAMEBUFFER d1
                 in if st \<noteq> gl_FRAMEBUFFER_COMPLETE
                    then
                      (if st \<noteq> 0
                       then (Some (''opengl: creating framebuffer failed: '' @ showNat (unat st)),
                             0, (c, d2))
                       else
                         let (e, d3) = glGetError d2
                         in if e \<noteq> gl_NO_ERROR
                            then (Some (''opengl: creating framebuffer failed: (glGetError) ''
                                        @ showNat (unat e)), 0, (c, d3))
                            else (Some ''opengl: creating framebuffer failed: unknown error'',
                                  0, (c, d3)))
                    else (None, f, (c, d2))) s2
           in if err2 \<noteq> None then ((0, err2), s3)
              else ((framebuffer, None), s3))"

text \<open>\<open>newProgram\<close>, lines 329--352.\<close>

fun newProgram :: "state \<Rightarrow> shader list \<Rightarrow> (program \<times> error option) \<times> state" where
  "newProgram s shaders =
     (let (err, pr, s1) = runOnContextThread (\<lambda>(c, d).
            let (p, d1) = glCreateProgram d
            in if p = 0 then (Some ''opengl: glCreateProgram failed'', 0, (c, d1))
               else
                 let d2 = foldl (\<lambda>d' sh. issue (AttachShader p sh) d') d1 shaders;
                     d3 = issue (LinkProgram p) d2;
                     (v, d4) = glGetProgramiv_LINK_STATUS p d3
                 in if v = gl_FALSE then (Some ''opengl: program error'', 0, (c, d4))
                    else (None, p, (c, d4))) s
      in if err \<noteq> None then ((0, err), s1)
         else ((pr, None), s1))"

subsection \<open>Locations and uniforms\<close>

text \<open>
  \<open>getUniformLocationImpl\<close>, lines 371--379, and \<open>getAttribLocationImpl\<close>, lines
  414--422. A panic is the left injection and carries the message.
\<close>

fun getUniformLocationImpl :: "state \<Rightarrow> program \<Rightarrow> string \<Rightarrow> panic + uniformLocation \<times> state" where
  "getUniformLocationImpl (c, d) p location =
     (let (uniform, d1) = glGetUniformLocation p location d
      in if uniform = - 1 then Inl (''opengl: invalid uniform location: '' @ location)
         else Inr (uniform, (c, d1)))"

fun getAttribLocationImpl :: "state \<Rightarrow> program \<Rightarrow> string \<Rightarrow> panic + attribLocation \<times> state" where
  "getAttribLocationImpl (c, d) p location =
     (let (attrib, d1) = glGetAttribLocation p location d
      in if attrib = - 1 then Inl (''opengl: invalid attrib location: '' @ location)
         else Inr (attrib, (c, d1)))"

text \<open>
  Modelled from the spec: \<open>locationCache.GetUniformLocation\<close> is declared outside
  context\_desktop.go. Spec section 4.4: on the first request for a (program, name)
  pair it resolves via the device (\<open>getUniformLocationImpl\<close>) and stores the result;
  later requests for the pair return the stored value without a device round-trip.
\<close>

fun GetUniformLocation :: "state \<Rightarrow> program \<Rightarrow> string \<Rightarrow> panic + uniformLocation \<times> state" where
  "GetUniformLocation (c, d) p location =
     (case uniformLocationCache (locationCache c) (getProgramID p, location) of
        Some l \<Rightarrow> Inr (l, (c, d))
      | None \<Rightarrow>
          (case getUniformLocationImpl (c, d) p location of
             Inl e \<Rightarrow> Inl e
           | Inr (l, (c1, d1)) \<Rightarrow>
               Inr (l, (c1\<lparr>locationCache := (locationCache c1)
                            \<lparr>uniformLocationCache :=
                               (uniformLocationCache (locationCache c1))
                                 ((getProgramID p, location) \<mapsto> l)\<rparr>\<rparr>, d1))))"

text \<open>\<open>uniformFloats\<close>, lines 397--412.\<close>

fun uniformFloats :: "state \<Rightarrow> program \<Rightarrow> string \<Rightarrow> 32 word list \<Rightarrow> panic + state" where
  "uniformFloats s p location v =
     runOnContextThread (\<lambda>s0.
       case GetUniformLocation s0 p location of
         Inl e \<Rightarrow> Inl e
       | Inr (l, (c, d)) \<Rightarrow>
           if length v = 2 then Inr (c, issue (Uniform2fv l v) d)
           else if length v = 4 then Inr (c, issue (Uniform4fv l v) d)
           else if length v = 16 then Inr (c, issue (UniformMatrix4fv l v) d)
           else Inl ''not reached'') s"

section \<open>Observations on the call trace and sample states\<close>

definition isBlendFuncCall :: "glcall \<Rightarrow> bool" where
  "isBlendFuncCall k = (case k of BlendFunc_call _ _ \<Rightarrow> True | _ \<Rightarrow> False)"

definition blendFuncCalls :: "device \<Rightarrow> nat" where
  "blendFuncCalls d = length (filter isBlendFuncCall (calls d))"

definition isDeleteCall :: "glcall \<Rightarrow> bool" where
  "isDeleteCall k = (case k of DeleteTextures _ \<Rightarrow> True | DeleteFramebuffersEXT _ \<Rightarrow> True
                      | DeleteProgram _ \<Rightarrow> True | _ \<Rightarrow> False)"

definition deleteCalls :: "device \<Rightarrow> glcall list" where
  "deleteCalls d = filter isDeleteCall (calls d)"

definition initCalls :: "device \<Rightarrow> nat" where
  "initCalls d = length (filter (\<lambda>k. k = Init) (calls d))"

definition errorQueries :: "device \<Rightarrow> nat" where
  "errorQueries d = length (filter (\<lambda>k. k = GetError) (calls d))"

text \<open>
  A device that has received no call yet and a context before its first \<open>reset\<close>,
  used to run the operations on concrete inputs.
\<close>

definition exampleDevice :: device where
  "exampleDevice = \<lparr>calls = [], init_result = None, gen_texture = 1, gen_framebuffer = 1,
     framebuffer_status = gl_FRAMEBUFFER_COMPLETE, last_error = 0, framebuffer_binding = 0,
     created_program = 7, link_status = 1, program_info_log = [],
     textures = {}, framebuffers = {}, programs = {},
     uniform_location = (\<lambda>p name. if name = ''tex'' then 3 else - 1),
     attrib_location = (\<lambda>p name. if name = ''vertex'' then 0 else - 1)\<rparr>"

definition exampleContext :: Context where
  "exampleContext = \<lparr>init = False, locationCache = newLocationCache, lastTexture = 0,
     lastFramebuffer = 0, lastViewportWidth = 0, lastViewportHeight = 0,
     lastCompositeMode = CompositeModeUnknown, screenFramebuffer = 0\<rparr>"

text \<open>
  A device on which program 7 is live, the state after the first lookup of the uniform
  \<open>tex\<close> of program 7 on it (the location 3 is cached), and the device after that
  program was deleted and a new program was given the same name 7, with \<open>tex\<close> at
  location 5.
\<close>

definition liveDevice :: device where
  "liveDevice = exampleDevice\<lparr>programs := {7}\<rparr>"

definition cachedState :: state where
  "cachedState =
     (exampleContext\<lparr>locationCache :=
        \<lparr>uniformLocationCache = [(7, ''tex'') \<mapsto> 3], attribLocationCache = Map.empty\<rparr>\<rparr>,
      issue (GetUniformLocation_call 7 ''tex'') liveDevice)"

definition reusedDevice :: device where
  "reusedDevice =
     (snd (deleteProgram cachedState 7))\<lparr>programs := {7}, uniform_location := (\<lambda>p name. 5)\<rparr>"

section \<open>The blend-mode short-circuit\<close>

lemma BlendFunc_same:
  "lastCompositeMode c = m \<Longrightarrow> BlendFunc Ops conv (c, d) m = (c, d)"
  by (simp add: runOnContextThread_def)

lemma BlendFunc_other:
  "lastCompositeMode c \<noteq> m \<Longrightarrow> BlendFunc Ops conv (c, d) m =
     (c\<lparr>lastCompositeMode := m\<rparr>,
      issue (BlendFunc_call (word_of_int (conv (fst (Ops m)))) (word_of_int (conv (snd (Ops m))))) d)"
  by (simp add: runOnContextThread_def Let_def split: prod.splits)

lemma blendFuncCalls_issue:
  "blendFuncCalls (issue k d) = blendFuncCalls d + (if isBlendFuncCall k then 1 else 0)"
  by (simp add: blendFuncCalls_def issue_def)

text \<open>
  Claim C2. For every context, device, mode \<open>m\<close> and every resolution of modes to
  blend factors: when \<open>m\<close> is the cached composite mode, \<open>BlendFunc\<close> returns the
  context and the device as they were (no call reaches the device); otherwise the device
  receives exactly one more call, the blend-function call with the two factors resolved
  from \<open>m\<close>, and the cached composite mode becomes \<open>m\<close>. Two consecutive calls with
  the same mode add at most one blend-function call.
\<close>

theorem BlendFunc_short_circuit:
  "(lastCompositeMode c = m \<longrightarrow> BlendFunc Ops conv (c, d) m = (c, d)) \<and>
   (lastCompositeMode c \<noteq> m \<longrightarrow>
      BlendFunc Ops conv (c, d) m =
        (c\<lparr>lastCompositeMode := m\<rparr>,
         issue (BlendFunc_call (word_of_int (conv (fst (Ops m))))
                               (word_of_int (conv (snd (Ops m))))) d)) \<and>
   blendFuncCalls (snd (BlendFunc Ops conv (c, d) m)) =
     blendFuncCalls d + (if lastCompositeMode c = m then 0 else 1) \<and>
   blendFuncCalls (snd (BlendFunc Ops conv (BlendFunc Ops conv (c, d) m) m)) \<le>
     blendFuncCalls d + 1"
proof (cases "lastCompositeMode c = m")
  case True
  then show ?thesis by (simp add: BlendFunc_same del: BlendFunc.simps)
next
  case False
  have same: "BlendFunc Ops conv (c\<lparr>lastCompositeMode := m\<rparr>, d') m
                = (c\<lparr>lastCompositeMode := m\<rparr>, d')" for d'
    by (rule BlendFunc_same) simp
  from False show ?thesis
    by (simp add: BlendFunc_other same blendFuncCalls_issue isBlendFuncCall_def
             del: BlendFunc.simps)
qed

theorem BlendFunc_short_circuit_witness:
  "lastCompositeMode exampleContext \<noteq> CompositeModeSourceOver \<and>
   BlendFunc (\<lambda>m. (1 :: int, 771)) (\<lambda>x. x) (exampleContext, exampleDevice)
       CompositeModeSourceOver =
     (exampleContext\<lparr>lastCompositeMode := CompositeModeSourceOver\<rparr>,
      issue (BlendFunc_call 1 771) exampleDevice) \<and>
   lastCompositeMode exampleContext = CompositeModeUnknown \<and>
   BlendFunc (\<lambda>m. (1 :: int, 771)) (\<lambda>x. x) (exampleContext, exampleDevice)
       CompositeModeUnknown =
     (exampleContext, exampleDevice)"
proof -
  have u: "lastCompositeMode exampleContext = CompositeModeUnknown"
    by (simp add: exampleContext_def)
  from BlendFunc_short_circuit [of exampleContext CompositeModeSourceOver
         "\<lambda>m. (1 :: int, 771)" "\<lambda>x. x" exampleDevice]
       BlendFunc_short_circuit [of exampleContext CompositeModeUnknown
         "\<lambda>m. (1 :: int, 771)" "\<lambda>x. x" exampleDevice]
  show ?thesis
    by (simp add: u del: BlendFunc.simps)
qed

section \<open>Deleting a handle that is not live\<close>

lemma DeleteTexture_dead:
  "h \<notin> textures d \<Longrightarrow> DeleteTexture (c, d) h = (c, issue (IsTexture_call h) d)"
  by (simp add: runOnContextThread_def glIsTexture_def)

lemma DeleteFramebuffer_dead:
  "h \<notin> framebuffers d \<Longrightarrow> DeleteFramebuffer (c, d) h = (c, issue (IsFramebufferEXT h) d)"
  by (simp add: runOnContextThread_def glIsFramebufferEXT_def)

lemma deleteProgram_dead:
  "h \<notin> programs d \<Longrightarrow> deleteProgram (c, d) h = (c, issue (IsProgram h) d)"
  by (simp add: runOnContextThread_def glIsProgram_def)

lemma deleteCalls_issue:
  "deleteCalls (issue k d) = deleteCalls d @ (if isDeleteCall k then [k] else [])"
  by (simp add: deleteCalls_def issue_def)

text \<open>
  Claim C6. For every handle \<open>h\<close> that the device does not report as live,
  \<open>DeleteTexture\<close>, \<open>DeleteFramebuffer\<close> and \<open>deleteProgram\<close> each return (none of
  them has an error result) with the context unchanged, hence with every cached-state
  entry unchanged, and the only call the device has received is the liveness query: the
  delete calls in its trace are those it had before.
\<close>

theorem delete_idempotent:
  "(h \<notin> textures d \<longrightarrow>
      DeleteTexture (c, d) h = (c, issue (IsTexture_call h) d) \<and>
      deleteCalls (snd (DeleteTexture (c, d) h)) = deleteCalls d) \<and>
   (h \<notin> framebuffers d \<longrightarrow>
      DeleteFramebuffer (c, d) h = (c, issue (IsFramebufferEXT h) d) \<and>
      deleteCalls (snd (DeleteFramebuffer (c, d) h)) = deleteCalls d) \<and>
   (h \<notin> programs d \<longrightarrow>
      deleteProgram (c, d) h = (c, issue (IsProgram h) d) \<and>
      deleteCalls (snd (deleteProgram (c, d) h)) = deleteCalls d)"
  by (simp add: DeleteTexture_dead DeleteFramebuffer_dead deleteProgram_dead deleteCalls_issue
        isDeleteCall_def del: DeleteTexture.simps DeleteFramebuffer.simps deleteProgram.simps)

theorem delete_idempotent_witness:
  "5 \<notin> textures exampleDevice \<and>
   DeleteTexture (exampleContext, exampleDevice) 5
     = (exampleContext, issue (IsTexture_call 5) exampleDevice) \<and>
   5 \<notin> framebuffers exampleDevice \<and>
   DeleteFramebuffer (exampleContext, exampleDevice) 5
     = (exampleContext, issue (IsFramebufferEXT 5) exampleDevice) \<and>
   5 \<notin> programs exampleDevice \<and>
   deleteProgram (exampleContext, exampleDevice) 5
     = (exampleContext, issue (IsProgram 5) exampleDevice)"
proof -
  have e: "textures exampleDevice = {}" "framebuffers exampleDevice = {}"
          "programs exampleDevice = {}"
    by (simp_all add: exampleDevice_def)
  from delete_idempotent [of 5 exampleDevice exampleContext] show ?thesis
    by (simp add: e del: DeleteTexture.simps DeleteFramebuffer.simps deleteProgram.simps)
qed

section \<open>Deleting the bound framebuffer\<close>

lemma invalidFramebuffer_all_ones: "invalidFramebuffer = - 1"
  by (simp add: invalidFramebuffer_def)

lemma unat_invalidFramebuffer: "unat invalidFramebuffer = 2 ^ 32 - 1"
  by (simp add: invalidFramebuffer_def)

lemma DeleteFramebuffer_live:
  "f \<in> framebuffers d \<Longrightarrow>
   DeleteFramebuffer (c, d) f =
     ((if lastFramebuffer c = f
       then c\<lparr>lastFramebuffer := invalidFramebuffer, lastViewportWidth := 0,
              lastViewportHeight := 0\<rparr>
       else c),
      glDeleteFramebuffersEXT f (issue (IsFramebufferEXT f) d))"
  by (simp add: runOnContextThread_def glIsFramebufferEXT_def)

text \<open>
  Claim C5. For every framebuffer handle \<open>f\<close> that the device reports as live: when
  \<open>f\<close> is the cached bound framebuffer, \<open>DeleteFramebuffer\<close> sets the cached
  framebuffer to the invalid sentinel and both cached viewport dimensions to 0; when
  \<open>f\<close> is another handle, the context is unchanged. In both cases the device delete
  is the last call the device receives, after the liveness query.
\<close>

theorem DeleteFramebuffer_viewport:
  "f \<in> framebuffers d \<longrightarrow>
     (lastFramebuffer c = f \<longrightarrow>
        fst (DeleteFramebuffer (c, d) f) =
          c\<lparr>lastFramebuffer := invalidFramebuffer, lastViewportWidth := 0,
            lastViewportHeight := 0\<rparr>) \<and>
     (lastFramebuffer c \<noteq> f \<longrightarrow> fst (DeleteFramebuffer (c, d) f) = c) \<and>
     snd (DeleteFramebuffer (c, d) f) = glDeleteFramebuffersEXT f (issue (IsFramebufferEXT f) d) \<and>
     calls (snd (DeleteFramebuffer (c, d) f)) =
       calls d @ [IsFramebufferEXT f, DeleteFramebuffersEXT f]"
  by (simp add: DeleteFramebuffer_live glDeleteFramebuffersEXT_def issue_def
           del: DeleteFramebuffer.simps)

theorem DeleteFramebuffer_viewport_witness:
  "4 \<in> framebuffers (exampleDevice\<lparr>framebuffers := {4, 6}\<rparr>) \<and>
   lastFramebuffer (exampleContext\<lparr>lastFramebuffer := 4, lastViewportWidth := 640,
                                  lastViewportHeight := 480\<rparr>) = 4 \<and>
   fst (DeleteFramebuffer (exampleContext\<lparr>lastFramebuffer := 4, lastViewportWidth := 640,
                                          lastViewportHeight := 480\<rparr>,
                           exampleDevice\<lparr>framebuffers := {4, 6}\<rparr>) 4) =
     exampleContext\<lparr>lastFramebuffer := invalidFramebuffer, lastViewportWidth := 0,
                    lastViewportHeight := 0\<rparr> \<and>
   6 \<in> framebuffers (exampleDevice\<lparr>framebuffers := {4, 6}\<rparr>) \<and>
   lastFramebuffer (exampleContext\<lparr>lastFramebuffer := 4, lastViewportWidth := 640,
                                  lastViewportHeight := 480\<rparr>) \<noteq> 6 \<and>
   fst (DeleteFramebuffer (exampleContext\<lparr>lastFramebuffer := 4, lastViewportWidth := 640,
                                          lastViewportHeight := 480\<rparr>,
                           exampleDevice\<lparr>framebuffers := {4, 6}\<rparr>) 6) =
     exampleContext\<lparr>lastFramebuffer := 4, lastViewportWidth := 640, lastViewportHeight := 480\<rparr>"
  using DeleteFramebuffer_viewport [of 4 "exampleDevice\<lparr>framebuffers := {4, 6}\<rparr>"
          "exampleContext\<lparr>lastFramebuffer := 4, lastViewportWidth := 640,
                          lastViewportHeight := 480\<rparr>"]
        DeleteFramebuffer_viewport [of 6 "exampleDevice\<lparr>framebuffers := {4, 6}\<rparr>"
          "exampleContext\<lparr>lastFramebuffer := 4, lastViewportWidth := 640,
                          lastViewportHeight := 480\<rparr>"]
  by (simp del: DeleteFramebuffer.simps)

section \<open>reset\<close>

lemma reset_initialised:
  "init c \<Longrightarrow> reset Ops conv (c, d) =
     (None,
      (c\<lparr>locationCache := newLocationCache, lastTexture := invalidTexture,
         lastFramebuffer := invalidFramebuffer, lastViewportWidth := 0,
         lastViewportHeight := 0, lastCompositeMode := CompositeModeSourceOver,
         screenFramebuffer := framebuffer_binding d\<rparr>,
       d\<lparr>calls := calls d @
            [Enable gl_BLEND,
             BlendFunc_call (word_of_int (conv (fst (Ops CompositeModeSourceOver))))
                            (word_of_int (conv (snd (Ops CompositeModeSourceOver)))),
             GetIntegerv gl_FRAMEBUFFER_BINDING]\<rparr>))"
  by (simp add: runOnContextThread_def Let_def issue_def glGetIntegerv_FRAMEBUFFER_BINDING_def
           split: prod.splits)

lemma reset_first:
  "\<not> init c \<Longrightarrow> init_result d = None \<Longrightarrow> reset Ops conv (c, d) =
     (None,
      (c\<lparr>init := True, locationCache := newLocationCache, lastTexture := invalidTexture,
         lastFramebuffer := invalidFramebuffer, lastViewportWidth := 0,
         lastViewportHeight := 0, lastCompositeMode := CompositeModeSourceOver,
         screenFramebuffer := framebuffer_binding d\<rparr>,
       d\<lparr>calls := calls d @
            [Init, Enable gl_BLEND,
             BlendFunc_call (word_of_int (conv (fst (Ops CompositeModeSourceOver))))
                            (word_of_int (conv (snd (Ops CompositeModeSourceOver)))),
             GetIntegerv gl_FRAMEBUFFER_BINDING]\<rparr>))"
  by (simp add: runOnContextThread_def Let_def issue_def glGetIntegerv_FRAMEBUFFER_BINDING_def
        glInit_def split: prod.splits)

lemma reset_failed:
  "\<not> init c \<Longrightarrow> init_result d = Some e \<Longrightarrow> reset Ops conv (c, d) =
     (Some (''opengl: initializing error '' @ e), (c, d\<lparr>calls := calls d @ [Init]\<rparr>))"
  by (simp add: runOnContextThread_def Let_def issue_def glInit_def split: prod.splits)


lemma initCalls_append: "initCalls (d\<lparr>calls := calls d @ ks\<rparr>) = initCalls d + length (filter (\<lambda>k. k = Init) ks)"
  by (simp add: initCalls_def)

text \<open>
  Against claim C3 as stated: on a context whose init flag is clear and a device whose
  library initialization fails, \<open>reset\<close> returns the initialization error and leaves
  the flag clear, so the next \<open>reset\<close> of the same context runs the initialization
  again: two initialization calls for one context.
\<close>

theorem reset_retries_failed_init_counterexample:
  "\<not> init exampleContext \<and>
   reset (\<lambda>m. (1 :: int, 771)) (\<lambda>x. x)
      (exampleContext, exampleDevice\<lparr>init_result := Some ''no display''\<rparr>) =
     (Some ''opengl: initializing error no display'',
      (exampleContext, exampleDevice\<lparr>init_result := Some ''no display'', calls := [Init]\<rparr>)) \<and>
   reset (\<lambda>m. (1 :: int, 771)) (\<lambda>x. x)
      (snd (reset (\<lambda>m. (1 :: int, 771)) (\<lambda>x. x)
         (exampleContext, exampleDevice\<lparr>init_result := Some ''no display''\<rparr>))) =
     (Some ''opengl: initializing error no display'',
      (exampleContext,
       exampleDevice\<lparr>init_result := Some ''no display'', calls := [Init, Init]\<rparr>)) \<and>
   initCalls (exampleDevice\<lparr>init_result := Some ''no display'', calls := [Init, Init]\<rparr>) = 2"
proof -
  have e: "\<not> init exampleContext" "calls exampleDevice = []"
    by (simp_all add: exampleContext_def exampleDevice_def)
  have r1: "reset (\<lambda>m. (1 :: int, 771)) (\<lambda>x. x)
      (exampleContext, exampleDevice\<lparr>init_result := Some ''no display''\<rparr>) =
     (Some ''opengl: initializing error no display'',
      (exampleContext, exampleDevice\<lparr>init_result := Some ''no display'', calls := [Init]\<rparr>))"
    by (simp add: reset_failed e del: reset.simps)
  have r2: "reset (\<lambda>m. (1 :: int, 771)) (\<lambda>x. x)
      (exampleContext, exampleDevice\<lparr>init_result := Some ''no display'', calls := [Init]\<rparr>) =
     (Some ''opengl: initializing error no display'',
      (exampleContext,
       exampleDevice\<lparr>init_result := Some ''no display'', calls := [Init, Init]\<rparr>))"
    by (simp add: reset_failed e del: reset.simps)
  show ?thesis
    by (simp add: e r1 r2 initCalls_def del: reset.simps)
qed

text \<open>
  Claim C3, amended. \<open>reset\<close> on every context and device, in the order of the device's
  call trace. (1) With the init flag set, the library initialization is not called, and
  \<open>reset\<close> never clears the flag; with the flag clear it is called exactly once in
  this \<open>reset\<close>: its failure is returned as an initialization error with the context
  untouched (the flag stays clear, so a later \<open>reset\<close> calls it again), its success
  sets the flag. (2) The Location Cache is a new, empty one. (3) The cached texture,
  framebuffer and viewport hold their sentinels; the composite mode was reset to
  unknown, so the blend-function call below is issued whatever the mode was before.
  (4) Blending is enabled. (5) Source-over goes through \<open>BlendFunc\<close>: one
  blend-function call, and the cached composite mode is source-over. (6) The device's
  framebuffer binding is queried and stored as the screen framebuffer.
\<close>

theorem reset_steps:
  "(init c \<longrightarrow>
      reset Ops conv (c, d) =
        (None,
         (c\<lparr>locationCache := newLocationCache, lastTexture := invalidTexture,
            lastFramebuffer := invalidFramebuffer, lastViewportWidth := 0,
            lastViewportHeight := 0, lastCompositeMode := CompositeModeSourceOver,
            screenFramebuffer := framebuffer_binding d\<rparr>,
          d\<lparr>calls := calls d @
               [Enable gl_BLEND,
                BlendFunc_call (word_of_int (conv (fst (Ops CompositeModeSourceOver))))
                               (word_of_int (conv (snd (Ops CompositeModeSourceOver)))),
                GetIntegerv gl_FRAMEBUFFER_BINDING]\<rparr>))) \<and>
   (\<not> init c \<and> init_result d = None \<longrightarrow>
      reset Ops conv (c, d) =
        (None,
         (c\<lparr>init := True, locationCache := newLocationCache, lastTexture := invalidTexture,
            lastFramebuffer := invalidFramebuffer, lastViewportWidth := 0,
            lastViewportHeight := 0, lastCompositeMode := CompositeModeSourceOver,
            screenFramebuffer := framebuffer_binding d\<rparr>,
          d\<lparr>calls := calls d @
               [Init, Enable gl_BLEND,
                BlendFunc_call (word_of_int (conv (fst (Ops CompositeModeSourceOver))))
                               (word_of_int (conv (snd (Ops CompositeModeSourceOver)))),
                GetIntegerv gl_FRAMEBUFFER_BINDING]\<rparr>))) \<and>
   (\<not> init c \<and> init_result d = Some e \<longrightarrow>
      reset Ops conv (c, d) =
        (Some (''opengl: initializing error '' @ e), (c, d\<lparr>calls := calls d @ [Init]\<rparr>))) \<and>
   (init c \<longrightarrow>
      init (fst (snd (reset Ops conv (c, d)))) \<and>
      initCalls (snd (snd (reset Ops conv (c, d)))) = initCalls d) \<and>
   (\<not> init c \<longrightarrow> initCalls (snd (snd (reset Ops conv (c, d)))) = initCalls d + 1) \<and>
   (fst (reset Ops conv (c, d)) = None \<longrightarrow> init (fst (snd (reset Ops conv (c, d))))) \<and>
   initCalls (snd (snd (reset Ops conv (c, d)))) \<le> initCalls d + 1"
proof -
  have again: "(init c \<longrightarrow>
      init (fst (snd (reset Ops conv (c, d)))) \<and>
      initCalls (snd (snd (reset Ops conv (c, d)))) = initCalls d) \<and>
   (\<not> init c \<longrightarrow> initCalls (snd (snd (reset Ops conv (c, d)))) = initCalls d + 1) \<and>
   (fst (reset Ops conv (c, d)) = None \<longrightarrow> init (fst (snd (reset Ops conv (c, d))))) \<and>
   initCalls (snd (snd (reset Ops conv (c, d)))) \<le> initCalls d + 1"
  proof (cases "init c")
    case True
    then show ?thesis
      by (simp add: reset_initialised initCalls_append del: reset.simps)
  next
    case False
    show ?thesis
    proof (cases "init_result d")
      case None
      with False show ?thesis
        by (simp add: reset_first reset_initialised initCalls_append del: reset.simps)
    next
      case (Some e')
      with False show ?thesis
        by (simp add: reset_failed initCalls_append del: reset.simps)
    qed
  qed
  show ?thesis
    using again by (simp add: reset_initialised reset_first reset_failed del: reset.simps)
qed

theorem reset_steps_witness:
  "\<not> init exampleContext \<and> init_result exampleDevice = None \<and>
   fst (reset (\<lambda>m. (1 :: int, 771)) (\<lambda>x. x) (exampleContext, exampleDevice)) = None \<and>
   calls (snd (snd (reset (\<lambda>m. (1 :: int, 771)) (\<lambda>x. x) (exampleContext, exampleDevice)))) =
     [Init, Enable gl_BLEND, BlendFunc_call 1 771, GetIntegerv gl_FRAMEBUFFER_BINDING] \<and>
   lastCompositeMode (fst (snd (reset (\<lambda>m. (1 :: int, 771)) (\<lambda>x. x)
      (exampleContext, exampleDevice)))) = CompositeModeSourceOver \<and>
   init (exampleContext\<lparr>init := True\<rparr>) \<and>
   calls (snd (snd (reset (\<lambda>m. (1 :: int, 771)) (\<lambda>x. x)
      (exampleContext\<lparr>init := True\<rparr>, exampleDevice)))) =
     [Enable gl_BLEND, BlendFunc_call 1 771, GetIntegerv gl_FRAMEBUFFER_BINDING] \<and>
   \<not> init exampleContext \<and> init_result (exampleDevice\<lparr>init_result := Some ''no display''\<rparr>)
     = Some ''no display'' \<and>
   reset (\<lambda>m. (1 :: int, 771)) (\<lambda>x. x)
      (exampleContext, exampleDevice\<lparr>init_result := Some ''no display''\<rparr>) =
     (Some ''opengl: initializing error no display'',
      (exampleContext, exampleDevice\<lparr>init_result := Some ''no display'', calls := [Init]\<rparr>))"
proof -
  have e: "\<not> init exampleContext" "init_result exampleDevice = None" "calls exampleDevice = []"
    by (simp_all add: exampleContext_def exampleDevice_def)
  from reset_steps [of exampleContext "\<lambda>m. (1 :: int, 771)" "\<lambda>x. x" exampleDevice]
       reset_steps [of "exampleContext\<lparr>init := True\<rparr>" "\<lambda>m. (1 :: int, 771)" "\<lambda>x. x" exampleDevice]
       reset_steps [of exampleContext "\<lambda>m. (1 :: int, 771)" "\<lambda>x. x"
                       "exampleDevice\<lparr>init_result := Some ''no display''\<rparr>" "''no display''"]
  show ?thesis
    by (simp add: e del: reset.simps)
qed

section \<open>The error of an incomplete framebuffer\<close>

lemma NewFramebuffer_incomplete:
  assumes "gen_framebuffer d \<noteq> 0" and "framebuffer_status d \<noteq> gl_FRAMEBUFFER_COMPLETE"
  shows "NewFramebuffer (c, d) t =
     ((0, Some (if framebuffer_status d \<noteq> 0
                then ''opengl: creating framebuffer failed: '' @ showNat (unat (framebuffer_status d))
                else if last_error d \<noteq> gl_NO_ERROR
                then ''opengl: creating framebuffer failed: (glGetError) ''
                       @ showNat (unat (last_error d))
                else ''opengl: creating framebuffer failed: unknown error'')),
      (let (c', d') = bindFramebuffer (c, issue GenFramebuffersEXT d) (gen_framebuffer d);
           d1 = issue (CheckFramebufferStatusEXT gl_FRAMEBUFFER)
                  (issue (FramebufferTexture2DEXT gl_FRAMEBUFFER gl_COLOR_ATTACHMENT0
                            gl_TEXTURE_2D t 0) d')
       in (c', if framebuffer_status d \<noteq> 0 then d1
               else issue GetError (d1\<lparr>last_error := gl_NO_ERROR\<rparr>))))"
  using assms
  by (simp add: runOnContextThread_def Let_def glGenFramebuffersEXT_def
        glCheckFramebufferStatusEXT_def glGetError_def issue_def
        split: prod.splits)

lemma errorQueries_issue:
  "errorQueries (issue k d) = errorQueries d + (if k = GetError then 1 else 0)"
  by (simp add: errorQueries_def issue_def)

lemma errorQueries_last_error [simp]:
  "errorQueries (d\<lparr>last_error := e\<rparr>) = errorQueries d"
  by (simp add: errorQueries_def)

lemma errorQueries_bindFramebuffer:
  "errorQueries (snd (bindFramebuffer (c, d) f)) = errorQueries d"
  by (simp add: runOnContextThread_def errorQueries_issue)

text \<open>
  Claim C4. When \<open>NewFramebuffer\<close> reaches its completeness check (the device handed
  out a nonzero name) and the device does not report the framebuffer complete, the
  error is chosen in this order: a nonzero status is printed into the message;
  with status zero, a nonzero value of the device's last-error query is printed into the
  message; with both zero, the message is the fixed unknown-error text. The last-error
  query is made only when the status is zero. The handle returned with the error is the
  zero value, not the name the device handed out.
\<close>

theorem NewFramebuffer_error_fallback:
  "gen_framebuffer d \<noteq> 0 \<and> framebuffer_status d \<noteq> gl_FRAMEBUFFER_COMPLETE \<longrightarrow>
     (framebuffer_status d \<noteq> 0 \<longrightarrow>
        snd (fst (NewFramebuffer (c, d) t)) =
          Some (''opengl: creating framebuffer failed: '' @ showNat (unat (framebuffer_status d)))) \<and>
     (framebuffer_status d = 0 \<and> last_error d \<noteq> 0 \<longrightarrow>
        snd (fst (NewFramebuffer (c, d) t)) =
          Some (''opengl: creating framebuffer failed: (glGetError) ''
                @ showNat (unat (last_error d)))) \<and>
     (framebuffer_status d = 0 \<and> last_error d = 0 \<longrightarrow>
        snd (fst (NewFramebuffer (c, d) t)) =
          Some ''opengl: creating framebuffer failed: unknown error'') \<and>
     fst (fst (NewFramebuffer (c, d) t)) = 0 \<and>
     fst (fst (NewFramebuffer (c, d) t)) \<noteq> gen_framebuffer d \<and>
     errorQueries (snd (snd (NewFramebuffer (c, d) t))) =
       errorQueries d + (if framebuffer_status d = 0 then 1 else 0)"
proof (intro impI, elim conjE)
  assume g: "gen_framebuffer d \<noteq> 0" and st: "framebuffer_status d \<noteq> gl_FRAMEBUFFER_COMPLETE"
  obtain c' d' where b: "bindFramebuffer (c, issue GenFramebuffersEXT d) (gen_framebuffer d) = (c', d')"
    by (cases "bindFramebuffer (c, issue GenFramebuffersEXT d) (gen_framebuffer d)")
  have q: "errorQueries d' = errorQueries d"
    using errorQueries_bindFramebuffer [of c "issue GenFramebuffersEXT d" "gen_framebuffer d"] b
    by (simp add: errorQueries_issue del: bindFramebuffer.simps)
  show "(framebuffer_status d \<noteq> 0 \<longrightarrow>
        snd (fst (NewFramebuffer (c, d) t)) =
          Some (''opengl: creating framebuffer failed: '' @ showNat (unat (framebuffer_status d)))) \<and>
     (framebuffer_status d = 0 \<and> last_error d \<noteq> 0 \<longrightarrow>
        snd (fst (NewFramebuffer (c, d) t)) =
          Some (''opengl: creating framebuffer failed: (glGetError) ''
                @ showNat (unat (last_error d)))) \<and>
     (framebuffer_status d = 0 \<and> last_error d = 0 \<longrightarrow>
        snd (fst (NewFramebuffer (c, d) t)) =
          Some ''opengl: creating framebuffer failed: unknown error'') \<and>
     fst (fst (NewFramebuffer (c, d) t)) = 0 \<and>
     fst (fst (NewFramebuffer (c, d) t)) \<noteq> gen_framebuffer d \<and>
     errorQueries (snd (snd (NewFramebuffer (c, d) t))) =
       errorQueries d + (if framebuffer_status d = 0 then 1 else 0)"
    using g
    by (simp add: NewFramebuffer_incomplete [OF g st] b q errorQueries_issue gl_NO_ERROR_def
             del: NewFramebuffer.simps bindFramebuffer.simps)
qed

lemma showNat_36054: "showNat 36054 = ''36054''"
  by (simp add: showNat.simps digitChar_def)

lemma showNat_1282: "showNat 1282 = ''1282''"
  by (simp add: showNat.simps digitChar_def)

theorem NewFramebuffer_error_fallback_witness:
  "gen_framebuffer (exampleDevice\<lparr>framebuffer_status := 0x8CD6, last_error := 0x0502\<rparr>) \<noteq> 0 \<and>
   framebuffer_status (exampleDevice\<lparr>framebuffer_status := 0x8CD6, last_error := 0x0502\<rparr>)
     \<noteq> gl_FRAMEBUFFER_COMPLETE \<and>
   fst (NewFramebuffer (exampleContext,
          exampleDevice\<lparr>framebuffer_status := 0x8CD6, last_error := 0x0502\<rparr>) 1) =
     (0, Some ''opengl: creating framebuffer failed: 36054'') \<and>
   fst (NewFramebuffer (exampleContext,
          exampleDevice\<lparr>framebuffer_status := 0, last_error := 0x0502\<rparr>) 1) =
     (0, Some ''opengl: creating framebuffer failed: (glGetError) 1282'') \<and>
   fst (NewFramebuffer (exampleContext,
          exampleDevice\<lparr>framebuffer_status := 0, last_error := 0\<rparr>) 1) =
     (0, Some ''opengl: creating framebuffer failed: unknown error'')"
proof -
  have e: "gen_framebuffer exampleDevice = 1"
    by (simp add: exampleDevice_def)
  from NewFramebuffer_error_fallback
         [of "exampleDevice\<lparr>framebuffer_status := 0x8CD6, last_error := 0x0502\<rparr>" exampleContext 1]
       NewFramebuffer_error_fallback
         [of "exampleDevice\<lparr>framebuffer_status := 0, last_error := 0x0502\<rparr>" exampleContext 1]
       NewFramebuffer_error_fallback
         [of "exampleDevice\<lparr>framebuffer_status := 0, last_error := 0\<rparr>" exampleContext 1]
  show ?thesis
    by (simp add: e gl_FRAMEBUFFER_COMPLETE_def showNat_36054 showNat_1282 prod_eq_iff
             del: NewFramebuffer.simps)
qed

section \<open>Locations that the device does not resolve\<close>

text \<open>
  Claim C8. For every program \<open>p\<close> and name \<open>s\<close>, \<open>getUniformLocationImpl\<close> and
  \<open>getAttribLocationImpl\<close> panic exactly when the device resolves \<open>s\<close> to \<open>-1\<close>,
  with the message that names \<open>s\<close>; otherwise they return the device's location.
  They never return \<open>-1\<close>. When the device resolves every name of a set \<open>names\<close>
  (every name the engine uses exists in the linked program), no lookup of a name of the
  set panics.
\<close>

theorem location_lookup_fatal:
  "((\<exists>msg. getUniformLocationImpl (c, d) p s = Inl msg) \<longleftrightarrow> uniform_location d p s = - 1) \<and>
   ((\<exists>msg. getAttribLocationImpl (c, d) p s = Inl msg) \<longleftrightarrow> attrib_location d p s = - 1) \<and>
   (uniform_location d p s = - 1 \<longrightarrow>
      getUniformLocationImpl (c, d) p s = Inl (''opengl: invalid uniform location: '' @ s)) \<and>
   (attrib_location d p s = - 1 \<longrightarrow>
      getAttribLocationImpl (c, d) p s = Inl (''opengl: invalid attrib location: '' @ s)) \<and>
   (uniform_location d p s \<noteq> - 1 \<longrightarrow>
      getUniformLocationImpl (c, d) p s =
        Inr (uniform_location d p s, (c, issue (GetUniformLocation_call p s) d))) \<and>
   (attrib_location d p s \<noteq> - 1 \<longrightarrow>
      getAttribLocationImpl (c, d) p s =
        Inr (attrib_location d p s, (c, issue (GetAttribLocation_call p s) d))) \<and>
   (\<forall>st. getUniformLocationImpl (c, d) p s \<noteq> Inr (- 1, st)) \<and>
   (\<forall>st. getAttribLocationImpl (c, d) p s \<noteq> Inr (- 1, st)) \<and>
   ((\<forall>n \<in> names. uniform_location d p n \<noteq> - 1) \<longrightarrow>
      (\<forall>n \<in> names. \<forall>msg. getUniformLocationImpl (c, d) p n \<noteq> Inl msg)) \<and>
   ((\<forall>n \<in> names. attrib_location d p n \<noteq> - 1) \<longrightarrow>
      (\<forall>n \<in> names. \<forall>msg. getAttribLocationImpl (c, d) p n \<noteq> Inl msg))"
  by (auto simp add: glGetUniformLocation_def glGetAttribLocation_def)

theorem location_lookup_fatal_witness:
  "uniform_location exampleDevice 7 ''tex'' \<noteq> - 1 \<and>
   getUniformLocationImpl (exampleContext, exampleDevice) 7 ''tex'' =
     Inr (3, (exampleContext, issue (GetUniformLocation_call 7 ''tex'') exampleDevice)) \<and>
   uniform_location exampleDevice 7 ''color'' = - 1 \<and>
   getUniformLocationImpl (exampleContext, exampleDevice) 7 ''color'' =
     Inl ''opengl: invalid uniform location: color'' \<and>
   attrib_location exampleDevice 7 ''vertex'' \<noteq> - 1 \<and>
   getAttribLocationImpl (exampleContext, exampleDevice) 7 ''vertex'' =
     Inr (0, (exampleContext, issue (GetAttribLocation_call 7 ''vertex'') exampleDevice)) \<and>
   attrib_location exampleDevice 7 ''normal'' = - 1 \<and>
   getAttribLocationImpl (exampleContext, exampleDevice) 7 ''normal'' =
     Inl ''opengl: invalid attrib location: normal''"
proof -
  have e: "uniform_location exampleDevice = (\<lambda>p name. if name = ''tex'' then 3 else - 1)"
          "attrib_location exampleDevice = (\<lambda>p name. if name = ''vertex'' then 0 else - 1)"
    by (simp_all add: exampleDevice_def)
  from location_lookup_fatal [of exampleContext exampleDevice 7 "''tex''" "{''tex''}"]
       location_lookup_fatal [of exampleContext exampleDevice 7 "''color''" "{''vertex''}"]
       location_lookup_fatal [of exampleContext exampleDevice 7 "''vertex''" "{''vertex''}"]
       location_lookup_fatal [of exampleContext exampleDevice 7 "''normal''" "{''tex''}"]
  show ?thesis
    by (simp add: e del: getUniformLocationImpl.simps getAttribLocationImpl.simps)
qed

section \<open>The handle returned with a creation error\<close>

lemma NewTexture_failure:
  "snd (fst (NewTexture (c, d) w h)) \<noteq> None \<Longrightarrow> fst (fst (NewTexture (c, d) w h)) = 0"
  by (simp add: runOnContextThread_def Let_def glGenTextures_def split: prod.splits if_splits)

lemma NewFramebuffer_failure:
  "snd (fst (NewFramebuffer (c, d) t)) \<noteq> None \<Longrightarrow> fst (fst (NewFramebuffer (c, d) t)) = 0"
  by (simp add: runOnContextThread_def Let_def glGenFramebuffersEXT_def
        glCheckFramebufferStatusEXT_def glGetError_def
        split: prod.splits if_splits)

lemma NewTexture_no_name:
  "gen_texture d = 0 \<Longrightarrow>
   NewTexture (c, d) w h = ((0, Some ''opengl: creating texture failed''), (c, issue GenTextures d))"
  by (simp add: runOnContextThread_def glGenTextures_def)

lemma NewFramebuffer_no_name:
  "gen_framebuffer d = 0 \<Longrightarrow>
   NewFramebuffer (c, d) t =
     ((0, Some ''opengl: creating framebuffer failed: gl.IsFramebuffer returns false''),
      (c, issue GenFramebuffersEXT d))"
  by (simp add: runOnContextThread_def glGenFramebuffersEXT_def)

lemma invalidFramebuffer_nonzero: "invalidFramebuffer \<noteq> 0"
  by (simp add: invalidFramebuffer_def)

lemma reset_screenFramebuffer:
  "fst (reset Ops conv (c, d)) = None \<Longrightarrow>
   screenFramebuffer (fst (snd (reset Ops conv (c, d)))) = framebuffer_binding d"
  by (cases "init c"; cases "init_result d")
     (simp_all add: reset_initialised reset_first reset_failed del: reset.simps)

text \<open>
  Claim C9. Whenever \<open>NewTexture\<close> or \<open>NewFramebuffer\<close> returns an error, the handle
  returned with it is 0; both do return an error when the device hands out no name, and
  \<open>NewFramebuffer\<close> also when the framebuffer is not complete. For textures 0 is the
  invalid sentinel. For framebuffers it is not: the sentinel is \<open>2 ^ 32 - 1\<close>, and 0 is
  a handle in use, since \<open>reset\<close> records it as the screen framebuffer when the device
  reports binding 0. So the handle of a failed \<open>NewFramebuffer\<close> never equals the
  framebuffer sentinel, and only the error tells the failure.
\<close>

theorem creation_failure_handle:
  "(snd (fst (NewTexture (c, d) w h)) \<noteq> None \<longrightarrow>
      fst (fst (NewTexture (c, d) w h)) = 0 \<and>
      fst (fst (NewTexture (c, d) w h)) = invalidTexture) \<and>
   (gen_texture d = 0 \<longrightarrow> snd (fst (NewTexture (c, d) w h)) \<noteq> None) \<and>
   (snd (fst (NewFramebuffer (c, d) t)) \<noteq> None \<longrightarrow>
      fst (fst (NewFramebuffer (c, d) t)) = 0 \<and>
      fst (fst (NewFramebuffer (c, d) t)) \<noteq> invalidFramebuffer) \<and>
   (gen_framebuffer d = 0 \<or> framebuffer_status d \<noteq> gl_FRAMEBUFFER_COMPLETE \<longrightarrow>
      snd (fst (NewFramebuffer (c, d) t)) \<noteq> None) \<and>
   unat invalidFramebuffer = 2 ^ 32 - 1 \<and>
   (framebuffer_binding d = 0 \<and> fst (reset Ops conv (c, d)) = None \<longrightarrow>
      screenFramebuffer (fst (snd (reset Ops conv (c, d)))) = 0)"
proof -
  have fb: "gen_framebuffer d = 0 \<or> framebuffer_status d \<noteq> gl_FRAMEBUFFER_COMPLETE \<longrightarrow>
      snd (fst (NewFramebuffer (c, d) t)) \<noteq> None"
  proof (cases "gen_framebuffer d = 0")
    case True
    then show ?thesis by (simp add: NewFramebuffer_no_name del: NewFramebuffer.simps)
  next
    case False
    then show ?thesis
      by (auto simp add: NewFramebuffer_incomplete simp del: NewFramebuffer.simps)
  qed
  show ?thesis
    using fb
    by (simp add: NewTexture_failure NewFramebuffer_failure NewTexture_no_name
          reset_screenFramebuffer invalidTexture_def invalidFramebuffer_nonzero [symmetric]
          unat_invalidFramebuffer
          del: NewTexture.simps NewFramebuffer.simps reset.simps)
qed

theorem creation_failure_handle_witness:
  "gen_texture (exampleDevice\<lparr>gen_texture := 0, gen_framebuffer := 0\<rparr>) = 0 \<and>
   snd (fst (NewTexture (exampleContext, exampleDevice\<lparr>gen_texture := 0, gen_framebuffer := 0\<rparr>)
               64 64)) \<noteq> None \<and>
   fst (fst (NewTexture (exampleContext, exampleDevice\<lparr>gen_texture := 0, gen_framebuffer := 0\<rparr>)
               64 64)) = invalidTexture \<and>
   gen_framebuffer (exampleDevice\<lparr>gen_texture := 0, gen_framebuffer := 0\<rparr>) = 0 \<and>
   snd (fst (NewFramebuffer (exampleContext,
               exampleDevice\<lparr>gen_texture := 0, gen_framebuffer := 0\<rparr>) 1)) \<noteq> None \<and>
   fst (fst (NewFramebuffer (exampleContext,
               exampleDevice\<lparr>gen_texture := 0, gen_framebuffer := 0\<rparr>) 1)) = 0 \<and>
   fst (fst (NewFramebuffer (exampleContext,
               exampleDevice\<lparr>gen_texture := 0, gen_framebuffer := 0\<rparr>) 1)) \<noteq> invalidFramebuffer \<and>
   framebuffer_binding (exampleDevice\<lparr>gen_texture := 0, gen_framebuffer := 0\<rparr>) = 0 \<and>
   fst (reset (\<lambda>m. (1 :: int, 771)) (\<lambda>x. x)
          (exampleContext, exampleDevice\<lparr>gen_texture := 0, gen_framebuffer := 0\<rparr>)) = None \<and>
   screenFramebuffer (fst (snd (reset (\<lambda>m. (1 :: int, 771)) (\<lambda>x. x)
          (exampleContext, exampleDevice\<lparr>gen_texture := 0, gen_framebuffer := 0\<rparr>)))) = 0"
proof -
  have e: "framebuffer_binding exampleDevice = 0" "\<not> init exampleContext"
          "init_result exampleDevice = None"
    by (simp_all add: exampleDevice_def exampleContext_def)
  have r: "fst (reset (\<lambda>m. (1 :: int, 771)) (\<lambda>x. x)
          (exampleContext, exampleDevice\<lparr>gen_texture := 0, gen_framebuffer := 0\<rparr>)) = None"
    by (simp add: reset_first e del: reset.simps)
  from creation_failure_handle
         [of exampleContext "exampleDevice\<lparr>gen_texture := 0, gen_framebuffer := 0\<rparr>" 64 64 1
             "\<lambda>m. (1 :: int, 771)" "\<lambda>x. x"]
  show ?thesis
    by (simp add: e r invalidTexture_def invalidFramebuffer_nonzero [symmetric]
             del: NewTexture.simps NewFramebuffer.simps reset.simps)
qed


section \<open>uniformFloats\<close>

text \<open>
  Against claim C10 as stated: with a name that the device does not resolve and that is
  not cached, \<open>uniformFloats\<close> on a slice of length 2 issues no uniform call and
  panics in the location lookup, and on the empty slice the panic is the one of the
  location lookup, not \<open>not reached\<close>.
\<close>

theorem uniformFloats_unresolved_name_counterexample:
  "length [0, 0 :: 32 word] = 2 \<and>
   uniformFloats (exampleContext, exampleDevice) 7 ''color'' [0, 0] =
     Inl ''opengl: invalid uniform location: color'' \<and>
   length ([] :: 32 word list) \<notin> {2, 4, 16} \<and>
   uniformFloats (exampleContext, exampleDevice) 7 ''color'' [] =
     Inl ''opengl: invalid uniform location: color'' \<and>
   ''opengl: invalid uniform location: color'' \<noteq> ''not reached''"
  by (simp add: runOnContextThread_def exampleContext_def exampleDevice_def newLocationCache_def
        getProgramID_def glGetUniformLocation_def)

text \<open>
  Claim C10, amended. When the name is in the Location Cache under the program's id, or
  is not cached and the device resolves it to a location other than \<open>-1\<close> (which is
  then cached), \<open>uniformFloats\<close> issues the 2-vector call for a slice of length 2,
  the 4-vector call for length 4 and the 4x4-matrix call for length 16, each with that
  location, and panics with \<open>not reached\<close> for every other length, the empty slice
  included. When the name is not cached and the device resolves it to \<open>-1\<close>,
  \<open>uniformFloats\<close> panics with the invalid-uniform-location message that names it,
  whatever the length.
\<close>

theorem uniformFloats_lengths:
  "(uniformLocationCache (locationCache c) (getProgramID p, name) = Some l \<longrightarrow>
      (length v = 2 \<longrightarrow> uniformFloats (c, d) p name v = Inr (c, issue (Uniform2fv l v) d)) \<and>
      (length v = 4 \<longrightarrow> uniformFloats (c, d) p name v = Inr (c, issue (Uniform4fv l v) d)) \<and>
      (length v = 16 \<longrightarrow>
         uniformFloats (c, d) p name v = Inr (c, issue (UniformMatrix4fv l v) d)) \<and>
      (length v \<notin> {2, 4, 16} \<longrightarrow> uniformFloats (c, d) p name v = Inl ''not reached'')) \<and>
   (uniformLocationCache (locationCache c) (getProgramID p, name) = None \<and>
    uniform_location d p name \<noteq> - 1 \<longrightarrow>
      (let u = uniform_location d p name;
           c' = c\<lparr>locationCache := (locationCache c)
                  \<lparr>uniformLocationCache :=
                     (uniformLocationCache (locationCache c))((getProgramID p, name) \<mapsto> u)\<rparr>\<rparr>;
           d' = issue (GetUniformLocation_call p name) d
       in (length v = 2 \<longrightarrow>
             uniformFloats (c, d) p name v = Inr (c', issue (Uniform2fv u v) d')) \<and>
          (length v = 4 \<longrightarrow>
             uniformFloats (c, d) p name v = Inr (c', issue (Uniform4fv u v) d')) \<and>
          (length v = 16 \<longrightarrow>
             uniformFloats (c, d) p name v = Inr (c', issue (UniformMatrix4fv u v) d')) \<and>
          (length v \<notin> {2, 4, 16} \<longrightarrow>
             uniformFloats (c, d) p name v = Inl ''not reached''))) \<and>
   (uniformLocationCache (locationCache c) (getProgramID p, name) = None \<and>
    uniform_location d p name = - 1 \<longrightarrow>
      uniformFloats (c, d) p name v = Inl (''opengl: invalid uniform location: '' @ name))"
  by (simp add: runOnContextThread_def glGetUniformLocation_def Let_def)

theorem uniformFloats_lengths_witness:
  "uniformLocationCache (locationCache (fst cachedState)) (getProgramID 7, ''tex'') = Some 3 \<and>
   length [1, 2 :: 32 word] = 2 \<and>
   uniformFloats cachedState 7 ''tex'' [1, 2] =
     Inr (fst cachedState, issue (Uniform2fv 3 [1, 2]) (snd cachedState)) \<and>
   length [1, 2, 3, 4 :: 32 word] = 4 \<and>
   uniformFloats cachedState 7 ''tex'' [1, 2, 3, 4] =
     Inr (fst cachedState, issue (Uniform4fv 3 [1, 2, 3, 4]) (snd cachedState)) \<and>
   length (replicate 16 (0 :: 32 word)) = 16 \<and>
   uniformFloats cachedState 7 ''tex'' (replicate 16 0) =
     Inr (fst cachedState, issue (UniformMatrix4fv 3 (replicate 16 0)) (snd cachedState)) \<and>
   length ([] :: 32 word list) \<notin> {2, 4, 16} \<and>
   uniformFloats cachedState 7 ''tex'' [] = Inl ''not reached'' \<and>
   length [1, 2, 3 :: 32 word] \<notin> {2, 4, 16} \<and>
   uniformFloats cachedState 7 ''tex'' [1, 2, 3] = Inl ''not reached'' \<and>
   uniform_location ((snd cachedState)\<lparr>uniform_location := (\<lambda>p name. - 1)\<rparr>) 7 ''tex'' = - 1 \<and>
   uniformFloats (fst cachedState, (snd cachedState)\<lparr>uniform_location := (\<lambda>p name. - 1)\<rparr>)
       7 ''tex'' [1, 2] =
     Inr (fst cachedState,
          issue (Uniform2fv 3 [1, 2]) ((snd cachedState)\<lparr>uniform_location := (\<lambda>p name. - 1)\<rparr>)) \<and>
   uniformLocationCache (locationCache exampleContext) (getProgramID 7, ''tex'') = None \<and>
   uniform_location exampleDevice 7 ''tex'' \<noteq> - 1 \<and>
   uniformFloats (exampleContext, exampleDevice) 7 ''tex'' [1, 2] =
     Inr (fst cachedState,
          issue (Uniform2fv 3 [1, 2]) (issue (GetUniformLocation_call 7 ''tex'') exampleDevice)) \<and>
   uniformFloats (exampleContext, exampleDevice) 7 ''tex'' [1, 2, 3] = Inl ''not reached'' \<and>
   uniformLocationCache (locationCache exampleContext) (getProgramID 7, ''color'') = None \<and>
   uniform_location exampleDevice 7 ''color'' = - 1 \<and>
   uniformFloats (exampleContext, exampleDevice) 7 ''color'' [1, 2] =
     Inl ''opengl: invalid uniform location: color'' \<and>
   uniformFloats (exampleContext, exampleDevice) 7 ''color'' [] =
     Inl ''opengl: invalid uniform location: color''"
proof -
  have k: "uniformLocationCache (locationCache (fst cachedState)) (getProgramID 7, ''tex'') = Some 3"
    by (simp add: cachedState_def getProgramID_def)
  have n: "uniformLocationCache (locationCache exampleContext) (getProgramID 7, ''tex'') = None"
          "uniformLocationCache (locationCache exampleContext) (getProgramID 7, ''color'') = None"
    by (simp_all add: exampleContext_def newLocationCache_def)
  have u: "uniform_location exampleDevice 7 ''tex'' = 3"
          "uniform_location exampleDevice 7 ''color'' = - 1"
    by (simp_all add: exampleDevice_def)
  have c: "exampleContext\<lparr>locationCache := (locationCache exampleContext)
                  \<lparr>uniformLocationCache :=
                     (uniformLocationCache (locationCache exampleContext))
                       ((getProgramID 7, ''tex'') \<mapsto> 3)\<rparr>\<rparr> = fst cachedState"
    by (simp add: cachedState_def exampleContext_def newLocationCache_def getProgramID_def)
  have s: "cachedState = (fst cachedState, snd cachedState)"
    by simp
  from uniformFloats_lengths [of "fst cachedState" 7 "''tex''" 3 "[1, 2]" "snd cachedState"]
       uniformFloats_lengths [of "fst cachedState" 7 "''tex''" 3 "[1, 2, 3, 4]" "snd cachedState"]
       uniformFloats_lengths [of "fst cachedState" 7 "''tex''" 3 "replicate 16 0" "snd cachedState"]
       uniformFloats_lengths [of "fst cachedState" 7 "''tex''" 3 "[]" "snd cachedState"]
       uniformFloats_lengths [of "fst cachedState" 7 "''tex''" 3 "[1, 2, 3]" "snd cachedState"]
       uniformFloats_lengths [of "fst cachedState" 7 "''tex''" 3 "[1, 2]"
          "(snd cachedState)\<lparr>uniform_location := (\<lambda>p name. - 1)\<rparr>"]
       uniformFloats_lengths [of exampleContext 7 "''tex''" 3 "[1, 2]" exampleDevice]
       uniformFloats_lengths [of exampleContext 7 "''tex''" 3 "[1, 2, 3]" exampleDevice]
       uniformFloats_lengths [of exampleContext 7 "''color''" 3 "[1, 2]" exampleDevice]
       uniformFloats_lengths [of exampleContext 7 "''color''" 3 "[]" exampleDevice]
  show ?thesis
    by (simp add: k n u c Let_def del: uniformFloats.simps)
qed

section \<open>Deleting a program\<close>

lemma deleteProgram_result:
  "deleteProgram (c, d) p =
     (c, if p \<in> programs d then glDeleteProgram p (issue (IsProgram p) d)
         else issue (IsProgram p) d)"
  by (simp add: runOnContextThread_def glIsProgram_def)

text \<open>
  On claim C1: program 7 is live and its uniform \<open>tex\<close> is cached at location 3.
  \<open>deleteProgram\<close> queries liveness and issues the device delete, and the cache
  entry keyed to 7 is still there. When the device then gives the name 7 to a new
  program whose \<open>tex\<close> is at location 5, the lookup returns the cached 3 without
  asking the device.
\<close>

theorem deleteProgram_leaves_stale_location:
  "7 \<in> programs liveDevice \<and>
   GetUniformLocation (exampleContext, liveDevice) 7 ''tex'' = Inr (3, cachedState) \<and>
   calls (snd (deleteProgram cachedState 7)) =
     [GetUniformLocation_call 7 ''tex'', IsProgram 7, DeleteProgram 7] \<and>
   7 \<notin> programs (snd (deleteProgram cachedState 7)) \<and>
   uniformLocationCache (locationCache (fst (deleteProgram cachedState 7)))
     (getProgramID 7, ''tex'') = Some 3 \<and>
   7 \<in> programs reusedDevice \<and>
   uniform_location reusedDevice 7 ''tex'' = 5 \<and>
   GetUniformLocation (fst (deleteProgram cachedState 7), reusedDevice) 7 ''tex'' =
     Inr (3, (fst (deleteProgram cachedState 7), reusedDevice))"
proof -
  have a: "7 \<in> programs liveDevice"
    by (simp add: liveDevice_def)
  have b: "GetUniformLocation (exampleContext, liveDevice) 7 ''tex'' = Inr (3, cachedState)"
    by (simp add: cachedState_def liveDevice_def exampleContext_def exampleDevice_def
          newLocationCache_def getProgramID_def glGetUniformLocation_def issue_def)
  have c: "deleteProgram cachedState 7 =
     (fst cachedState, glDeleteProgram 7 (issue (IsProgram 7) (snd cachedState)))"
    by (simp add: cachedState_def liveDevice_def deleteProgram_result issue_def
             del: deleteProgram.simps)
  have d: "calls (snd (deleteProgram cachedState 7)) =
     [GetUniformLocation_call 7 ''tex'', IsProgram 7, DeleteProgram 7]"
    unfolding c
    by (simp add: cachedState_def liveDevice_def exampleDevice_def glDeleteProgram_def issue_def)
  have e: "7 \<notin> programs (snd (deleteProgram cachedState 7))"
    by (simp add: c glDeleteProgram_def issue_def del: deleteProgram.simps)
  have f: "uniformLocationCache (locationCache (fst (deleteProgram cachedState 7)))
     (getProgramID 7, ''tex'') = Some 3"
    unfolding c by (simp add: cachedState_def getProgramID_def)
  have g: "7 \<in> programs reusedDevice" "uniform_location reusedDevice 7 ''tex'' = 5"
    by (simp_all add: reusedDevice_def)
  have h: "GetUniformLocation (fst (deleteProgram cachedState 7), reusedDevice) 7 ''tex'' =
     Inr (3, (fst (deleteProgram cachedState 7), reusedDevice))"
    by (simp add: f del: deleteProgram.simps)
  from a b d e f g h show ?thesis by (simp del: deleteProgram.simps GetUniformLocation.simps)
qed

section \<open>The error of a failed link\<close>

text \<open>
  On claim C7: \<open>newProgram\<close> on a device that creates program 7, reports link status
  false and holds a diagnostic log for the program. The error is the fixed text; the
  device receives no query for the log, and the log text is not part of the message.
\<close>

theorem newProgram_link_error_without_log:
  "newProgram (exampleContext,
      exampleDevice\<lparr>link_status := gl_FALSE,
                     program_info_log := ''error: varying uv not written by vertex shader''\<rparr>)
      [2, 3] =
     ((0, Some ''opengl: program error''),
      (exampleContext,
       exampleDevice\<lparr>link_status := gl_FALSE,
                      program_info_log := ''error: varying uv not written by vertex shader'',
                      calls := [CreateProgram, AttachShader 7 2, AttachShader 7 3, LinkProgram 7,
                                GetProgramiv 7 gl_LINK_STATUS]\<rparr>))"
  by (simp add: runOnContextThread_def glCreateProgram_def glGetProgramiv_LINK_STATUS_def
        issue_def exampleDevice_def Let_def)

end
